theory Spec2Isabelle
  imports Main
begin

section \<open>Values, settings and the clock\<close>

text \<open>
  The values that travel through \<^verbatim>\<open>app/crud/user_crud.py\<close>: what a Python dictionary
  of token claims holds and what JSON carries. Python's \<^verbatim>\<open>None\<close> is \<open>JNull\<close>; numbers
  are integers.
\<close>

datatype json =
    JNull
  | JBool bool
  | JInt int
  | JStr string
  | JArray "json list"
  | JObject "(string \<times> json) list"

type_synonym dict = "string \<rightharpoonup> json"

text \<open>\<^verbatim>\<open>d.get(k)\<close>: the value stored under \<open>k\<close>, \<^verbatim>\<open>None\<close> when the key is missing.\<close>

definition dict_get :: "dict \<Rightarrow> string \<Rightarrow> json" where
  "dict_get d k = (case d k of None \<Rightarrow> JNull | Some v \<Rightarrow> v)"

text \<open>\<^verbatim>\<open>d.get(k, default)\<close>.\<close>

definition dict_get_default :: "dict \<Rightarrow> string \<Rightarrow> json \<Rightarrow> json" where
  "dict_get_default d k dflt = (case d k of None \<Rightarrow> dflt | Some v \<Rightarrow> v)"

text \<open>Truth value of a dictionary in a condition (\<^verbatim>\<open>if user_shop_data:\<close>): false when empty.\<close>

definition dict_truthy :: "dict \<Rightarrow> bool" where
  "dict_truthy d = (d \<noteq> Map.empty)"

text \<open>The JWT part of class \<^verbatim>\<open>Settings\<close>.\<close>

record settings =
  SECRET_KEY :: string
  ALGORITHM :: string
  ACCESS_TOKEN_EXPIRE_MINUTES :: int

text \<open>
  Time is counted in whole seconds, the resolution of a token's \<^verbatim>\<open>exp\<close> claim. The clock
  of the host is the instant in seconds since the epoch (UTC) together with the offset of
  the host's time zone. \<^verbatim>\<open>datetime.now()\<close> returns a naive datetime holding the local
  wall-clock reading; \<^verbatim>\<open>datetime.utcnow()\<close>, which the JWT library reads when it
  validates, holds the UTC reading. A duration (\<^verbatim>\<open>timedelta\<close>) is a number of seconds.
\<close>

record clock =
  utc :: int
  utcoffset :: int

definition datetime_now :: "clock \<Rightarrow> int" where
  "datetime_now clk = utc clk + utcoffset clk"

definition datetime_utcnow :: "clock \<Rightarrow> int" where
  "datetime_utcnow clk = utc clk"

text \<open>\<^verbatim>\<open>timedelta(minutes=m)\<close>.\<close>

definition timedelta_minutes :: "int \<Rightarrow> int" where
  "timedelta_minutes m = 60 * m"

text \<open>Truth value of a \<^verbatim>\<open>timedelta\<close> in a condition: false exactly for the zero duration.\<close>

definition timedelta_truthy :: "int \<Rightarrow> bool" where
  "timedelta_truthy d = (d \<noteq> 0)"

section \<open>Exceptions\<close>

record http_exception =
  status_code :: nat
  detail :: string
  headers :: "(string \<times> string) list option"

text \<open>
  The exceptions that can leave the functions below. \<open>ExpiredSignatureError\<close> and
  \<open>JWTClaimsError\<close> are subclasses of \<open>JWTError\<close> in the JWT library, so
  \<^verbatim>\<open>except JWTError\<close> catches all three and nothing else. \<open>ValueError\<close> and
  \<open>TypeError\<close> are what Python's \<^verbatim>\<open>int()\<close> raises; \<open>MultipleResultsFound\<close> is what
  \<^verbatim>\<open>scalar_one_or_none()\<close> raises on more than one row.
\<close>

datatype exc =
    JWTError
  | ExpiredSignatureError
  | JWTClaimsError
  | ValueError
  | TypeError
  | HTTPException http_exception
  | MultipleResultsFound

fun is_JWTError :: "exc \<Rightarrow> bool" where
  "is_JWTError JWTError = True"
| "is_JWTError ExpiredSignatureError = True"
| "is_JWTError JWTClaimsError = True"
| "is_JWTError _ = False"

section \<open>The JWT library\<close>

text \<open>
  \<^verbatim>\<open>jwt.encode\<close> and \<^verbatim>\<open>jwt.decode\<close> belong to the \<^verbatim>\<open>jose\<close> package, not to this
  repository. They are modelled symbolically, by their contract. A token string either is
  not a well-formed compact JWS over a JSON object (\<open>Malformed\<close>), or it is: then it
  names an algorithm in its header, carries a claims object, and its signature verifies
  under exactly one key (\<open>JWS alg key claims\<close>; signatures are ideal, a token forged
  without any key is one signed with a key nobody configured).
\<close>

datatype token = Malformed string | JWS string string dict

text \<open>
  \<^verbatim>\<open>jwt.encode(claims, key, algorithm)\<close>. Signing is taken to succeed: the configured
  algorithm and key are ones the library accepts. A \<^verbatim>\<open>datetime\<close> under \<^verbatim>\<open>exp\<close> is
  written as the number of seconds its fields denote when read as UTC; for the naive local
  datetime that \<^verbatim>\<open>create_access_token\<close> passes, that is the local wall-clock reading,
  and the payload below already holds that number.
\<close>

definition jwt_encode :: "dict \<Rightarrow> string \<Rightarrow> string \<Rightarrow> token" where
  "jwt_encode claims key algorithm = JWS algorithm key claims"

text \<open>
  Python's \<^verbatim>\<open>int(v)\<close> on a decoded claim. An integer is itself and a boolean is 0 or 1.
  A string is parsed: what \<^verbatim>\<open>int()\<close> reads from a string is the parameter
  \<open>int_str\<close>, \<open>None\<close> where it raises \<open>ValueError\<close>. On \<^verbatim>\<open>None\<close>, a list or a
  dictionary \<^verbatim>\<open>int()\<close> raises \<open>TypeError\<close>.
\<close>

fun py_int :: "(string \<Rightarrow> int option) \<Rightarrow> json \<Rightarrow> exc + int" where
  "py_int int_str (JInt n) = Inr n"
| "py_int int_str (JBool b) = Inr (if b then 1 else 0)"
| "py_int int_str (JStr s) = (case int_str s of None \<Rightarrow> Inl ValueError | Some n \<Rightarrow> Inr n)"
| "py_int int_str JNull = Inl TypeError"
| "py_int int_str (JArray _) = Inl TypeError"
| "py_int int_str (JObject _) = Inl TypeError"

text \<open>
  The checks \<^verbatim>\<open>jwt.decode\<close> makes on the registered claims with its default options, in
  the library's order. The time claims \<^verbatim>\<open>iat\<close>, \<^verbatim>\<open>nbf\<close> and \<^verbatim>\<open>exp\<close> are read
  with \<^verbatim>\<open>int()\<close> inside \<^verbatim>\<open>try ... except ValueError\<close>: a \<open>ValueError\<close> becomes
  \<open>JWTClaimsError\<close>, a \<open>TypeError\<close> is not caught and leaves \<^verbatim>\<open>jwt.decode\<close> as it
  is. \<^verbatim>\<open>nbf\<close> must not lie in the future and \<^verbatim>\<open>exp\<close> not before the current UTC
  time. No audience was asked for, so a token with an \<^verbatim>\<open>aud\<close> claim is refused;
  \<^verbatim>\<open>sub\<close> and \<^verbatim>\<open>jti\<close> are strings; \<^verbatim>\<open>at_hash\<close> cannot be checked without an
  access token. A claim that is absent is not checked.
\<close>

fun is_JStr :: "json \<Rightarrow> bool" where
  "is_JStr (JStr _) = True"
| "is_JStr _ = False"

text \<open>The \<^verbatim>\<open>except ValueError\<close> clause of the three time checks.\<close>

fun except_ValueError :: "exc \<Rightarrow> exc" where
  "except_ValueError ValueError = JWTClaimsError"
| "except_ValueError e = e"

definition validate_iat :: "(string \<Rightarrow> int option) \<Rightarrow> dict \<Rightarrow> exc option" where
  "validate_iat int_str claims =
     (case claims ''iat'' of
        None \<Rightarrow> None
      | Some v \<Rightarrow>
          (case py_int int_str v of
             Inl e \<Rightarrow> Some (except_ValueError e)
           | Inr _ \<Rightarrow> None))"

definition validate_nbf :: "(string \<Rightarrow> int option) \<Rightarrow> dict \<Rightarrow> int \<Rightarrow> exc option" where
  "validate_nbf int_str claims now =
     (case claims ''nbf'' of
        None \<Rightarrow> None
      | Some v \<Rightarrow>
          (case py_int int_str v of
             Inl e \<Rightarrow> Some (except_ValueError e)
           | Inr nbf \<Rightarrow> if nbf > now then Some JWTClaimsError else None))"

definition validate_exp :: "(string \<Rightarrow> int option) \<Rightarrow> dict \<Rightarrow> int \<Rightarrow> exc option" where
  "validate_exp int_str claims now =
     (case claims ''exp'' of
        None \<Rightarrow> None
      | Some v \<Rightarrow>
          (case py_int int_str v of
             Inl e \<Rightarrow> Some (except_ValueError e)
           | Inr e \<Rightarrow> if e < now then Some ExpiredSignatureError else None))"

definition validate_aud :: "dict \<Rightarrow> exc option" where
  "validate_aud claims =
     (case claims ''aud'' of None \<Rightarrow> None | Some _ \<Rightarrow> Some JWTClaimsError)"

definition validate_sub :: "dict \<Rightarrow> exc option" where
  "validate_sub claims =
     (case claims ''sub'' of
        None \<Rightarrow> None
      | Some v \<Rightarrow> if is_JStr v then None else Some JWTClaimsError)"

definition validate_jti :: "dict \<Rightarrow> exc option" where
  "validate_jti claims =
     (case claims ''jti'' of
        None \<Rightarrow> None
      | Some v \<Rightarrow> if is_JStr v then None else Some JWTClaimsError)"

definition validate_at_hash :: "dict \<Rightarrow> exc option" where
  "validate_at_hash claims =
     (case claims ''at_hash'' of None \<Rightarrow> None | Some _ \<Rightarrow> Some JWTClaimsError)"

text \<open>The first check that fails decides; \<open>None\<close> when none does.\<close>

fun first_failure :: "exc option list \<Rightarrow> exc option" where
  "first_failure [] = None"
| "first_failure (None # rest) = first_failure rest"
| "first_failure (Some e # rest) = Some e"

definition validate_claims :: "(string \<Rightarrow> int option) \<Rightarrow> dict \<Rightarrow> int \<Rightarrow> exc option" where
  "validate_claims int_str claims now =
     first_failure
       [validate_iat int_str claims, validate_nbf int_str claims now,
        validate_exp int_str claims now, validate_aud claims, validate_sub claims,
        validate_jti claims, validate_at_hash claims]"

text \<open>
  \<^verbatim>\<open>jwt.decode(token, key, algorithms=...)\<close> at UTC time \<open>now\<close>: a malformed token, an
  algorithm that is not allowed and a signature that does not verify under \<open>key\<close> raise
  \<open>JWTError\<close>; then the claims are validated, and what a check raises leaves the call;
  then the claims are returned.
\<close>

definition jwt_decode ::
  "(string \<Rightarrow> int option) \<Rightarrow> token \<Rightarrow> string \<Rightarrow> string list \<Rightarrow> int \<Rightarrow> exc + dict" where
  "jwt_decode int_str tok key algorithms now =
     (case tok of
        Malformed _ \<Rightarrow> Inl JWTError
      | JWS alg k claims \<Rightarrow>
          if alg \<notin> set algorithms then Inl JWTError
          else if k \<noteq> key then Inl JWTError
          else (case validate_claims int_str claims now of
                  Some e \<Rightarrow> Inl e
                | None \<Rightarrow> Inr claims))"

section \<open>The store\<close>

record shop =
  Shop_id :: int

text \<open>
  A \<^verbatim>\<open>User\<close> object: the persisted columns, the collection \<^verbatim>\<open>shops\<close> of its
  relationship, and the two attributes \<^verbatim>\<open>get_current_user\<close> sets on the loaded object
  (\<open>None\<close> while the attribute has not been set).
\<close>

record user =
  User_id :: int
  login :: string
  is_active :: bool
  is_superuser :: bool
  shops :: "shop list"
  current_shop_id :: "json option"
  last_invoice_id :: "json option"

record invoice =
  Invoice_id :: int
  Invoice_user_id :: int
  Invoice_shop_id :: int
  created_at :: int

text \<open>What the \<^verbatim>\<open>AsyncSession\<close> reads: the rows of the two tables.\<close>

record session =
  users :: "user list"
  invoices :: "invoice list"

text \<open>\<^verbatim>\<open>Result.scalar_one_or_none()\<close>: no row, the one row, or an error on several.\<close>

fun scalar_one_or_none :: "'a list \<Rightarrow> exc + 'a option" where
  "scalar_one_or_none [] = Inr None"
| "scalar_one_or_none [x] = Inr (Some x)"
| "scalar_one_or_none _ = Inl MultipleResultsFound"

section \<open>Issuing a token\<close>

text \<open>
  The dictionary \<^verbatim>\<open>to_encode\<close> that \<^verbatim>\<open>create_access_token\<close> hands to
  \<^verbatim>\<open>jwt.encode\<close>. Both \<^verbatim>\<open>if\<close>s test the truth value of their argument, so an empty
  dictionary and a zero duration take the branch of \<^verbatim>\<open>None\<close>.
\<close>

definition to_encode :: "settings \<Rightarrow> user \<Rightarrow> dict option \<Rightarrow> int option \<Rightarrow> clock \<Rightarrow> dict" where
  "to_encode cfg usr user_shop_data expires_delta clk =
     (let base = [''user_id'' \<mapsto> JInt (User_id usr),
                  ''is_superuser'' \<mapsto> JBool (is_superuser usr),
                  ''sub'' \<mapsto> JStr (login usr)];
          with_shop =
            (case user_shop_data of
               None \<Rightarrow> base
             | Some d \<Rightarrow>
                 if dict_truthy d
                 then base(''user_shop_id'' \<mapsto> dict_get d ''user_shop_id'',
                           ''last_invoice_id'' \<mapsto> dict_get d ''last_invoice_id'')
                 else base);
          expire =
            (case expires_delta of
               None \<Rightarrow> datetime_now clk + timedelta_minutes (ACCESS_TOKEN_EXPIRE_MINUTES cfg)
             | Some delta \<Rightarrow>
                 if timedelta_truthy delta then datetime_now clk + delta
                 else datetime_now clk + timedelta_minutes (ACCESS_TOKEN_EXPIRE_MINUTES cfg))
      in with_shop(''exp'' \<mapsto> JInt expire))"

definition create_access_token ::
  "settings \<Rightarrow> user \<Rightarrow> dict option \<Rightarrow> int option \<Rightarrow> clock \<Rightarrow> token" where
  "create_access_token cfg usr user_shop_data expires_delta clk =
     jwt_encode (to_encode cfg usr user_shop_data expires_delta clk)
       (SECRET_KEY cfg) (ALGORITHM cfg)"

text \<open>The claims a token carries, if it is well formed.\<close>

fun claims_of :: "token \<Rightarrow> dict option" where
  "claims_of (Malformed _) = None"
| "claims_of (JWS _ _ claims) = Some claims"

text \<open>The value of one claim of a token; \<open>None\<close> when the claim is absent.\<close>

definition token_claim :: "token \<Rightarrow> string \<Rightarrow> json option" where
  "token_claim tok k = (case claims_of tok of None \<Rightarrow> None | Some claims \<Rightarrow> claims k)"

section \<open>The shop context of a user\<close>

text \<open>
  \<^verbatim>\<open>select(Invoice).where(Invoice.user_id == uid, Invoice.shop_id == sid)\<close> followed by
  \<^verbatim>\<open>.order_by(Invoice.created_at.desc()).limit(1)\<close>: the matching rows, latest first,
  cut after the first. Rows with equal \<^verbatim>\<open>created_at\<close> come in an order the database
  chooses; here it is the order of the table.
\<close>

definition order_by_created_at_desc :: "invoice list \<Rightarrow> invoice list" where
  "order_by_created_at_desc rows = sort_key (\<lambda>i. - created_at i) rows"

definition limit :: "nat \<Rightarrow> 'a list \<Rightarrow> 'a list" where
  "limit n rows = take n rows"

definition invoice_where :: "session \<Rightarrow> int \<Rightarrow> int \<Rightarrow> invoice list" where
  "invoice_where db uid sid =
     filter (\<lambda>i. Invoice_user_id i = uid \<and> Invoice_shop_id i = sid) (invoices db)"

definition invoice_query :: "session \<Rightarrow> int \<Rightarrow> int \<Rightarrow> invoice list" where
  "invoice_query db uid sid = limit 1 (order_by_created_at_desc (invoice_where db uid sid))"

definition null_shop_data :: dict where
  "null_shop_data = [''user_shop_id'' \<mapsto> JNull, ''last_invoice_id'' \<mapsto> JNull]"

definition get_user_shop_data :: "session \<Rightarrow> user \<Rightarrow> exc + dict" where
  "get_user_shop_data db usr =
     (case scalar_one_or_none (filter (\<lambda>u. User_id u = User_id usr) (users db)) of
        Inl e \<Rightarrow> Inl e
      | Inr None \<Rightarrow> Inr null_shop_data
      | Inr (Some user_with_shops) \<Rightarrow>
          (case shops user_with_shops of
             [] \<Rightarrow> Inr null_shop_data
           | user_shop # _ \<Rightarrow>
               (case scalar_one_or_none (invoice_query db (User_id usr) (Shop_id user_shop)) of
                  Inl e \<Rightarrow> Inl e
                | Inr last_invoice \<Rightarrow>
                    Inr [''user_shop_id'' \<mapsto> JInt (Shop_id user_shop),
                         ''last_invoice_id'' \<mapsto>
                           (case last_invoice of
                              None \<Rightarrow> JNull
                            | Some i \<Rightarrow> JInt (Invoice_id i))])))"

section \<open>Resolving the current user\<close>

text \<open>
  Modelled from the spec: class \<^verbatim>\<open>TokenData\<close> of \<^verbatim>\<open>app/schemas/schemas.py\<close>, which is
  not among the sources. The spec calls it the transient decoded representation of the
  payload, so it is a plain record of the four values read from the payload; constructing
  it does not fail.
\<close>

record token_data =
  td_user_id :: json
  td_is_superuser :: json
  td_user_shop_id :: json
  td_last_invoice_id :: json

definition credentials_exception :: http_exception where
  "credentials_exception =
     \<lparr>status_code = 401, detail = ''Could not validate credentials'',
      headers = Some [(''WWW-Authenticate'', ''Bearer'')]\<rparr>"

definition inactive_user_exception :: http_exception where
  "inactive_user_exception =
     \<lparr>status_code = 400, detail = ''Inactive user'', headers = None\<rparr>"

text \<open>
  \<^verbatim>\<open>select(User).where(User.id == token_data.user_id)\<close>: the rows whose integer id equals
  the claim; a claim that is not an integer equals no id.
\<close>

definition user_query :: "session \<Rightarrow> json \<Rightarrow> user list" where
  "user_query db v = filter (\<lambda>u. JInt (User_id u) = v) (users db)"

text \<open>
  The inner \<open>case\<close> is the body of the \<^verbatim>\<open>try\<close>; the \<open>Inl\<close> branch of the outer one is
  the \<^verbatim>\<open>except JWTError\<close> handler, which lets the \<open>HTTPException\<close> raised inside the
  \<^verbatim>\<open>try\<close> pass, and a \<open>TypeError\<close> out of \<^verbatim>\<open>jwt.decode\<close> as well. The first
  argument is Python's \<^verbatim>\<open>int()\<close> on strings, which the library uses.
\<close>

definition get_current_user ::
  "(string \<Rightarrow> int option) \<Rightarrow> settings \<Rightarrow> session \<Rightarrow> clock \<Rightarrow> token \<Rightarrow> exc + user" where
  "get_current_user int_str cfg db clk tok =
     (case (case jwt_decode int_str tok (SECRET_KEY cfg) [ALGORITHM cfg] (datetime_utcnow clk) of
              Inl e \<Rightarrow> Inl e
            | Inr payload \<Rightarrow>
                (let user_id = dict_get payload ''user_id'';
                     user_shop_id = dict_get payload ''user_shop_id'';
                     last_invoice = dict_get payload ''last_invoice_id'';
                     superuser = dict_get_default payload ''is_superuser'' (JBool False)
                 in if user_id = JNull then Inl (HTTPException credentials_exception)
                    else Inr \<lparr>td_user_id = user_id, td_is_superuser = superuser,
                              td_user_shop_id = user_shop_id,
                              td_last_invoice_id = last_invoice\<rparr>)) of
        Inl e \<Rightarrow> if is_JWTError e then Inl (HTTPException credentials_exception) else Inl e
      | Inr token_data \<Rightarrow>
          (case scalar_one_or_none (user_query db (td_user_id token_data)) of
             Inl e \<Rightarrow> Inl e
           | Inr None \<Rightarrow> Inl (HTTPException credentials_exception)
           | Inr (Some usr) \<Rightarrow>
               if \<not> is_active usr then Inl (HTTPException inactive_user_exception)
               else Inr (usr\<lparr>current_shop_id := Some (td_user_shop_id token_data),
                              last_invoice_id := Some (td_last_invoice_id token_data)\<rparr>)))"

section \<open>Fixtures\<close>

text \<open>Concrete settings, rows and clocks on which the theorems below are instantiated.\<close>

definition cfg0 :: settings where
  "cfg0 = \<lparr>SECRET_KEY = ''s3cret'', ALGORITHM = ''HS256'', ACCESS_TOKEN_EXPIRE_MINUTES = 30\<rparr>"

definition shop7 :: shop where
  "shop7 = \<lparr>Shop_id = 7\<rparr>"

definition alice :: user where
  "alice = \<lparr>User_id = 1, login = ''alice'', is_active = True, is_superuser = False,
            shops = [shop7], current_shop_id = None, last_invoice_id = None\<rparr>"

definition bob :: user where
  "bob = \<lparr>User_id = 2, login = ''bob'', is_active = False, is_superuser = True,
          shops = [], current_shop_id = None, last_invoice_id = None\<rparr>"

definition inv10 :: invoice where
  "inv10 = \<lparr>Invoice_id = 10, Invoice_user_id = 1, Invoice_shop_id = 7, created_at = 100\<rparr>"

definition inv11 :: invoice where
  "inv11 = \<lparr>Invoice_id = 11, Invoice_user_id = 1, Invoice_shop_id = 7, created_at = 300\<rparr>"

definition inv12 :: invoice where
  "inv12 = \<lparr>Invoice_id = 12, Invoice_user_id = 1, Invoice_shop_id = 7, created_at = 200\<rparr>"

text \<open>Invoices that are not alice's on shop 7: bob's on shop 7, and alice's on shop 8.\<close>

definition inv20 :: invoice where
  "inv20 = \<lparr>Invoice_id = 20, Invoice_user_id = 2, Invoice_shop_id = 7, created_at = 900\<rparr>"

definition inv21 :: invoice where
  "inv21 = \<lparr>Invoice_id = 21, Invoice_user_id = 1, Invoice_shop_id = 8, created_at = 800\<rparr>"

definition db0 :: session where
  "db0 = \<lparr>users = [alice, bob], invoices = [inv10, inv20, inv11, inv21, inv12]\<rparr>"

text \<open>
  A reading of \<^verbatim>\<open>int()\<close> on strings for the fixtures: the plain decimal digit strings.
\<close>

definition digit_table :: "(char \<times> int) list" where
  "digit_table =
     [(CHR ''0'', 0), (CHR ''1'', 1), (CHR ''2'', 2), (CHR ''3'', 3), (CHR ''4'', 4),
      (CHR ''5'', 5), (CHR ''6'', 6), (CHR ''7'', 7), (CHR ''8'', 8), (CHR ''9'', 9)]"

fun digits_value :: "int \<Rightarrow> string \<Rightarrow> int option" where
  "digits_value acc [] = Some acc"
| "digits_value acc (c # cs) =
     (case map_of digit_table c of
        None \<Rightarrow> None
      | Some d \<Rightarrow> digits_value (10 * acc + d) cs)"

definition int_str0 :: "string \<Rightarrow> int option" where
  "int_str0 s = (if s = [] then None else digits_value 0 s)"

text \<open>A host on UTC, and one whose zone is five hours behind UTC, at the same instant.\<close>

definition clk_utc :: clock where
  "clk_utc = \<lparr>utc = 20000, utcoffset = 0\<rparr>"

definition clk_west :: clock where
  "clk_west = \<lparr>utc = 20000, utcoffset = - 18000\<rparr>"

definition shop_data0 :: dict where
  "shop_data0 = [''user_shop_id'' \<mapsto> JInt 7, ''last_invoice_id'' \<mapsto> JInt 11]"

text \<open>Claims of tokens: for alice, for bob, for an id no row has, and without an id.\<close>

definition claims_alice :: dict where
  "claims_alice = [''user_id'' \<mapsto> JInt 1, ''is_superuser'' \<mapsto> JBool False,
                   ''sub'' \<mapsto> JStr ''alice'', ''user_shop_id'' \<mapsto> JInt 7,
                   ''exp'' \<mapsto> JInt 30000]"

definition claims_bob :: dict where
  "claims_bob = [''user_id'' \<mapsto> JInt 2, ''exp'' \<mapsto> JInt 30000]"

definition claims_nobody :: dict where
  "claims_nobody = [''user_id'' \<mapsto> JInt 99, ''exp'' \<mapsto> JInt 30000]"

definition claims_anonymous :: dict where
  "claims_anonymous = [''sub'' \<mapsto> JStr ''alice'', ''exp'' \<mapsto> JInt 30000]"

text \<open>Claims for alice that expired one second ago, once plain and once with a null \<^verbatim>\<open>iat\<close>.\<close>

definition claims_expired :: dict where
  "claims_expired = [''user_id'' \<mapsto> JInt 1, ''exp'' \<mapsto> JInt 19999]"

definition claims_null_iat :: dict where
  "claims_null_iat = [''user_id'' \<mapsto> JInt 1, ''iat'' \<mapsto> JNull, ''exp'' \<mapsto> JInt 19999]"

section \<open>What decoding can raise\<close>

text \<open>
  A time check raises a JWT error or the \<open>TypeError\<close> of \<^verbatim>\<open>int()\<close>; the other checks raise
  JWT errors only.
\<close>

lemma except_ValueError_py_int:
  "py_int int_str v = Inl e \<Longrightarrow> except_ValueError e = JWTClaimsError \<or> except_ValueError e = TypeError"
  by (cases v) (auto split: option.splits)

lemma validate_iat_raises:
  "validate_iat int_str claims = Some e \<Longrightarrow> is_JWTError e \<or> e = TypeError"
  using except_ValueError_py_int
  by (fastforce simp: validate_iat_def split: option.splits sum.splits)

lemma validate_nbf_raises:
  "validate_nbf int_str claims now = Some e \<Longrightarrow> is_JWTError e \<or> e = TypeError"
  using except_ValueError_py_int
  by (fastforce simp: validate_nbf_def split: option.splits sum.splits if_splits)

lemma validate_exp_raises:
  "validate_exp int_str claims now = Some e \<Longrightarrow> is_JWTError e \<or> e = TypeError"
  using except_ValueError_py_int
  by (fastforce simp: validate_exp_def split: option.splits sum.splits if_splits)

lemma validate_aud_raises: "validate_aud claims = Some e \<Longrightarrow> is_JWTError e"
  by (auto simp: validate_aud_def split: option.splits)

lemma validate_sub_raises: "validate_sub claims = Some e \<Longrightarrow> is_JWTError e"
  by (auto simp: validate_sub_def split: option.splits if_splits)

lemma validate_jti_raises: "validate_jti claims = Some e \<Longrightarrow> is_JWTError e"
  by (auto simp: validate_jti_def split: option.splits if_splits)

lemma validate_at_hash_raises: "validate_at_hash claims = Some e \<Longrightarrow> is_JWTError e"
  by (auto simp: validate_at_hash_def split: option.splits)

lemma first_failure_raises:
  "first_failure rs = Some e \<Longrightarrow> (\<And>r x. r \<in> set rs \<Longrightarrow> r = Some x \<Longrightarrow> P x) \<Longrightarrow> P e"
  by (induction rs rule: first_failure.induct) auto

lemma first_failure_Some:
  "Some e \<in> set rs \<Longrightarrow> first_failure rs \<noteq> None"
  by (induction rs rule: first_failure.induct) auto

lemma validate_claims_raises:
  assumes "validate_claims int_str claims now = Some e"
  shows "is_JWTError e \<or> e = TypeError"
  using assms unfolding validate_claims_def
proof (rule first_failure_raises)
  fix r x
  assume "r \<in> set [validate_iat int_str claims, validate_nbf int_str claims now,
        validate_exp int_str claims now, validate_aud claims, validate_sub claims,
        validate_jti claims, validate_at_hash claims]" and "r = Some x"
  then have "validate_iat int_str claims = Some x \<or> validate_nbf int_str claims now = Some x \<or>
      validate_exp int_str claims now = Some x \<or> validate_aud claims = Some x \<or>
      validate_sub claims = Some x \<or> validate_jti claims = Some x \<or>
      validate_at_hash claims = Some x"
    by auto
  then show "is_JWTError x \<or> x = TypeError"
    using validate_iat_raises validate_nbf_raises validate_exp_raises validate_aud_raises
      validate_sub_raises validate_jti_raises validate_at_hash_raises
    by blast
qed

text \<open>
  What \<^verbatim>\<open>jwt.decode\<close> raises is caught by \<^verbatim>\<open>except JWTError\<close>, or it is the
  \<open>TypeError\<close> of a time claim.
\<close>

lemma jwt_decode_raises:
  "jwt_decode int_str tok key algorithms now = Inl e \<Longrightarrow> is_JWTError e \<or> e = TypeError"
  by (auto simp: jwt_decode_def split: token.splits if_splits option.splits
      dest: validate_claims_raises)

lemma jwt_decode_returns:
  "jwt_decode int_str tok key algorithms now = Inr claims \<Longrightarrow>
     \<exists>alg. tok = JWS alg key claims \<and> alg \<in> set algorithms \<and>
       validate_claims int_str claims now = None"
  by (auto simp: jwt_decode_def split: token.splits if_splits option.splits)

lemma get_current_user_decode_failed:
  "jwt_decode int_str tok (SECRET_KEY cfg) [ALGORITHM cfg] (datetime_utcnow clk) = Inl e \<Longrightarrow>
   is_JWTError e \<Longrightarrow>
     get_current_user int_str cfg db clk tok = Inl (HTTPException credentials_exception)"
  by (simp add: get_current_user_def)

lemma get_current_user_TypeError:
  "jwt_decode int_str tok (SECRET_KEY cfg) [ALGORITHM cfg] (datetime_utcnow clk) = Inl TypeError \<Longrightarrow>
     get_current_user int_str cfg db clk tok = Inl TypeError"
  by (simp add: get_current_user_def)

lemma get_current_user_decoded:
  "jwt_decode int_str tok (SECRET_KEY cfg) [ALGORITHM cfg] (datetime_utcnow clk) = Inr payload \<Longrightarrow>
     get_current_user int_str cfg db clk tok =
       (if dict_get payload ''user_id'' = JNull then Inl (HTTPException credentials_exception)
        else case scalar_one_or_none (user_query db (dict_get payload ''user_id'')) of
               Inl e \<Rightarrow> Inl e
             | Inr None \<Rightarrow> Inl (HTTPException credentials_exception)
             | Inr (Some usr) \<Rightarrow>
                 if \<not> is_active usr then Inl (HTTPException inactive_user_exception)
                 else Inr (usr\<lparr>current_shop_id := Some (dict_get payload ''user_shop_id''),
                                last_invoice_id := Some (dict_get payload ''last_invoice_id'')\<rparr>))"
  by (simp add: get_current_user_def Let_def split: sum.splits option.splits)

lemmas validate_defs =
  validate_claims_def validate_iat_def validate_nbf_def validate_exp_def validate_aud_def
  validate_sub_def validate_jti_def validate_at_hash_def

lemmas fixture_defs =
  cfg0_def db0_def alice_def bob_def clk_utc_def clk_west_def claims_alice_def claims_bob_def
  claims_nobody_def claims_anonymous_def claims_expired_def claims_null_iat_def

lemmas eval_defs =
  get_current_user_def jwt_decode_def validate_defs dict_get_def dict_get_default_def
  datetime_utcnow_def datetime_now_def user_query_def

text \<open>What is known when a user comes back.\<close>

lemma get_current_user_returns:
  assumes "get_current_user int_str cfg db clk tok = Inr u"
  shows "\<exists>alg c r. tok = JWS alg (SECRET_KEY cfg) c \<and>
           jwt_decode int_str tok (SECRET_KEY cfg) [ALGORITHM cfg] (datetime_utcnow clk) = Inr c \<and>
           dict_get c ''user_id'' \<noteq> JNull \<and>
           user_query db (dict_get c ''user_id'') = [r] \<and> is_active r \<and>
           u = r\<lparr>current_shop_id := Some (dict_get c ''user_shop_id''),
                  last_invoice_id := Some (dict_get c ''last_invoice_id'')\<rparr>"
proof (cases "jwt_decode int_str tok (SECRET_KEY cfg) [ALGORITHM cfg] (datetime_utcnow clk)")
  case (Inl e)
  then show ?thesis
    using assms by (simp add: get_current_user_def split: if_splits)
next
  case (Inr c)
  then obtain alg where tok: "tok = JWS alg (SECRET_KEY cfg) c"
    using jwt_decode_returns by blast
  have u: "(if dict_get c ''user_id'' = JNull then Inl (HTTPException credentials_exception)
        else case scalar_one_or_none (user_query db (dict_get c ''user_id'')) of
               Inl e \<Rightarrow> Inl e
             | Inr None \<Rightarrow> Inl (HTTPException credentials_exception)
             | Inr (Some usr) \<Rightarrow>
                 if \<not> is_active usr then Inl (HTTPException inactive_user_exception)
                 else Inr (usr\<lparr>current_shop_id := Some (dict_get c ''user_shop_id''),
                                last_invoice_id := Some (dict_get c ''last_invoice_id'')\<rparr>)) = Inr u"
    using assms get_current_user_decoded [OF Inr, of db] by simp
  then have nn: "dict_get c ''user_id'' \<noteq> JNull"
    by (auto split: if_splits)
  obtain r where r: "user_query db (dict_get c ''user_id'') = [r]" "is_active r"
     "u = r\<lparr>current_shop_id := Some (dict_get c ''user_shop_id''),
                  last_invoice_id := Some (dict_get c ''last_invoice_id'')\<rparr>"
    using u nn
    by (cases "user_query db (dict_get c ''user_id'')" rule: scalar_one_or_none.cases)
       (auto split: if_splits)
  show ?thesis
    using tok Inr nn r by blast
qed

text \<open>Evaluations on the fixtures.\<close>

lemma decode_claims_bob:
  "jwt_decode int_str (JWS ''HS256'' ''s3cret'' claims_bob) (SECRET_KEY cfg0) [ALGORITHM cfg0]
     (datetime_utcnow clk_utc) = Inr claims_bob"
  by (simp add: jwt_decode_def validate_defs fixture_defs datetime_utcnow_def)

lemma decode_claims_anonymous:
  "jwt_decode int_str (JWS ''HS256'' ''s3cret'' claims_anonymous) (SECRET_KEY cfg0) [ALGORITHM cfg0]
     (datetime_utcnow clk_utc) = Inr claims_anonymous"
  by (simp add: jwt_decode_def validate_defs fixture_defs datetime_utcnow_def)

lemma decode_claims_nobody:
  "jwt_decode int_str (JWS ''HS256'' ''s3cret'' claims_nobody) (SECRET_KEY cfg0) [ALGORITHM cfg0]
     (datetime_utcnow clk_utc) = Inr claims_nobody"
  by (simp add: jwt_decode_def validate_defs fixture_defs datetime_utcnow_def)

lemma get_current_user_null_exp:
  "get_current_user int_str cfg0 db0 clk_utc (JWS ''HS256'' ''s3cret'' [''exp'' \<mapsto> JNull]) =
     Inl TypeError"
  by (simp add: eval_defs fixture_defs)

lemma get_current_user_alice:
  "get_current_user int_str cfg0 db0 clk_utc (JWS ''HS256'' ''s3cret'' claims_alice) =
     Inr (alice\<lparr>current_shop_id := Some (JInt 7), last_invoice_id := Some JNull\<rparr>)"
  by (simp add: eval_defs fixture_defs)

section \<open>Expired tokens\<close>

text \<open>
  A token whose \<^verbatim>\<open>exp\<close> claim reads, through \<^verbatim>\<open>int()\<close>, as a time before the UTC time
  of decoding never decodes: \<^verbatim>\<open>get_current_user\<close> answers with the credentials exception
  or lets a \<open>TypeError\<close> of an earlier time check pass.
\<close>

lemma validate_claims_expired:
  assumes "c ''exp'' = Some v" "py_int int_str v = Inr e" "e < now"
  shows "validate_claims int_str c now \<noteq> None"
proof -
  have "validate_exp int_str c now = Some ExpiredSignatureError"
    using assms by (simp add: validate_exp_def)
  then have "Some ExpiredSignatureError \<in> set [validate_iat int_str c, validate_nbf int_str c now,
        validate_exp int_str c now, validate_aud c, validate_sub c, validate_jti c,
        validate_at_hash c]"
    by simp
  then show ?thesis
    unfolding validate_claims_def by (rule first_failure_Some)
qed

lemma get_current_user_expired_or_TypeError:
  assumes "c ''exp'' = Some v" "py_int int_str v = Inr e" "e < datetime_utcnow clk"
  shows "get_current_user int_str cfg db clk (JWS alg key c) =
           Inl (HTTPException credentials_exception) \<or>
         get_current_user int_str cfg db clk (JWS alg key c) = Inl TypeError"
proof -
  have "validate_claims int_str c (datetime_utcnow clk) \<noteq> None"
    using assms by (rule validate_claims_expired)
  then have "\<exists>x. jwt_decode int_str (JWS alg key c) (SECRET_KEY cfg) [ALGORITHM cfg]
      (datetime_utcnow clk) = Inl x"
    by (auto simp: jwt_decode_def)
  then obtain x where x: "jwt_decode int_str (JWS alg key c) (SECRET_KEY cfg) [ALGORITHM cfg]
      (datetime_utcnow clk) = Inl x"
    by blast
  then have "is_JWTError x \<or> x = TypeError"
    by (rule jwt_decode_raises)
  then show ?thesis
    using x get_current_user_decode_failed [OF x, of db] get_current_user_TypeError [of int_str _ cfg clk db]
    by auto
qed

text \<open>
  When the two earlier time checks pass or raise what the library catches, that is, when
  \<^verbatim>\<open>iat\<close> and \<^verbatim>\<open>nbf\<close> are absent or values that \<^verbatim>\<open>int()\<close> takes without a
  \<open>TypeError\<close>, the answer to the expired token is the credentials exception.
\<close>

lemma get_current_user_expired_checked:
  assumes "c ''exp'' = Some v" "py_int int_str v = Inr e" "e < datetime_utcnow clk"
    and "validate_iat int_str c \<noteq> Some TypeError"
    and "validate_nbf int_str c (datetime_utcnow clk) \<noteq> Some TypeError"
  shows "get_current_user int_str cfg db clk (JWS alg key c) =
           Inl (HTTPException credentials_exception)"
proof -
  let ?now = "datetime_utcnow clk"
  have exp: "validate_exp int_str c ?now = Some ExpiredSignatureError"
    using assms(1-3) by (simp add: validate_exp_def)
  have iat: "validate_iat int_str c = None \<or> (\<exists>x. validate_iat int_str c = Some x \<and> is_JWTError x)"
    using assms(4) validate_iat_raises [of int_str c] by (cases "validate_iat int_str c") auto
  have nbf: "validate_nbf int_str c ?now = None \<or>
      (\<exists>x. validate_nbf int_str c ?now = Some x \<and> is_JWTError x)"
    using assms(5) validate_nbf_raises [of int_str c ?now]
    by (cases "validate_nbf int_str c ?now") auto
  have "\<exists>x. validate_claims int_str c ?now = Some x \<and> is_JWTError x"
    using iat nbf exp by (auto simp: validate_claims_def)
  then have "\<exists>x. jwt_decode int_str (JWS alg key c) (SECRET_KEY cfg) [ALGORITHM cfg] ?now = Inl x \<and>
      is_JWTError x"
    by (auto simp: jwt_decode_def)
  then show ?thesis
    using get_current_user_decode_failed by blast
qed

lemma get_current_user_claims_expired:
  "get_current_user int_str cfg0 db0 clk_utc (JWS ''HS256'' ''s3cret'' claims_expired) =
     Inl (HTTPException credentials_exception)"
  using get_current_user_expired_checked [of claims_expired "JInt 19999" int_str 19999 clk_utc
      cfg0 db0 "''HS256''" "''s3cret''"]
  by (simp add: claims_expired_def validate_iat_def validate_nbf_def datetime_utcnow_def
      clk_utc_def)

text \<open>
  Claim C6. Not every expired token is answered with the 401 credentials exception. The
  library checks \<^verbatim>\<open>iat\<close> before \<^verbatim>\<open>exp\<close> and reads it with \<^verbatim>\<open>int()\<close>, catching only
  \<open>ValueError\<close>. For a token signed with the configured key that carries a null
  \<^verbatim>\<open>iat\<close> and an \<^verbatim>\<open>exp\<close> one second in the past, \<^verbatim>\<open>jwt.decode\<close> raises
  \<open>TypeError\<close>; \<^verbatim>\<open>except JWTError\<close> does not catch it, and it leaves
  \<^verbatim>\<open>get_current_user\<close> in place of the credentials exception.
\<close>

theorem get_current_user_expired_null_iat:
  "SECRET_KEY cfg0 = ''s3cret'' \<and> ALGORITHM cfg0 = ''HS256'' \<and>
   claims_null_iat ''iat'' = Some JNull \<and>
   claims_null_iat ''exp'' = Some (JInt 19999) \<and>
   (19999::int) < datetime_utcnow clk_utc \<and>
   jwt_decode int_str (JWS ''HS256'' ''s3cret'' claims_null_iat) (SECRET_KEY cfg0)
     [ALGORITHM cfg0] (datetime_utcnow clk_utc) = Inl TypeError \<and>
   get_current_user int_str cfg0 db0 clk_utc (JWS ''HS256'' ''s3cret'' claims_null_iat) =
     Inl TypeError \<and>
   get_current_user int_str cfg0 db0 clk_utc (JWS ''HS256'' ''s3cret'' claims_null_iat) \<noteq>
     Inl (HTTPException credentials_exception)"
proof -
  have d: "jwt_decode int_str (JWS ''HS256'' ''s3cret'' claims_null_iat) (SECRET_KEY cfg0)
     [ALGORITHM cfg0] (datetime_utcnow clk_utc) = Inl TypeError"
    by (simp add: jwt_decode_def validate_claims_def validate_iat_def claims_null_iat_def
        cfg0_def)
  have g: "get_current_user int_str cfg0 db0 clk_utc (JWS ''HS256'' ''s3cret'' claims_null_iat) =
     Inl TypeError"
    using d by (rule get_current_user_TypeError)
  show ?thesis
    using d g
    by (simp add: cfg0_def claims_null_iat_def datetime_utcnow_def clk_utc_def)
qed

section \<open>Tokens signed with another secret\<close>

text \<open>
  Claim C7. A token whose signature verifies under a key other than the configured
  \<^verbatim>\<open>SECRET_KEY\<close> is rejected with the 401 credentials exception, for every payload and
  every store.
\<close>

theorem get_current_user_wrong_secret:
  "key \<noteq> SECRET_KEY cfg \<Longrightarrow>
     get_current_user int_str cfg db clk (JWS alg key c) =
       Inl (HTTPException credentials_exception) \<and>
     status_code credentials_exception = 401"
proof -
  assume "key \<noteq> SECRET_KEY cfg"
  then have "jwt_decode int_str (JWS alg key c) (SECRET_KEY cfg) [ALGORITHM cfg]
      (datetime_utcnow clk) = Inl JWTError"
    by (simp add: jwt_decode_def)
  then show ?thesis
    by (simp add: get_current_user_decode_failed credentials_exception_def)
qed

theorem get_current_user_wrong_secret_witness:
  "''guess'' \<noteq> SECRET_KEY cfg0 \<and>
   get_current_user int_str0 cfg0 db0 clk_utc
     (JWS ''HS256'' ''guess'' [''user_id'' \<mapsto> JInt 1, ''exp'' \<mapsto> JInt 30000]) =
     Inl (HTTPException credentials_exception) \<and>
   get_current_user int_str0 cfg0 db0 clk_utc
     (JWS ''HS256'' ''s3cret'' [''user_id'' \<mapsto> JInt 1, ''exp'' \<mapsto> JInt 30000]) =
     Inr (alice\<lparr>current_shop_id := Some JNull, last_invoice_id := Some JNull\<rparr>)"
proof -
  have guess: "''guess'' \<noteq> SECRET_KEY cfg0"
    by (simp add: cfg0_def)
  have ok: "get_current_user int_str0 cfg0 db0 clk_utc
     (JWS ''HS256'' ''s3cret'' [''user_id'' \<mapsto> JInt 1, ''exp'' \<mapsto> JInt 30000]) =
     Inr (alice\<lparr>current_shop_id := Some JNull, last_invoice_id := Some JNull\<rparr>)"
    by (simp add: eval_defs fixture_defs)
  show ?thesis
    using get_current_user_wrong_secret [OF guess, of int_str0 db0 clk_utc "''HS256''"
        "[''user_id'' \<mapsto> JInt 1, ''exp'' \<mapsto> JInt 30000]"] guess ok
    by simp
qed

section \<open>The rejections and their responses\<close>

text \<open>
  Claim C1. \<^verbatim>\<open>get_current_user\<close> answers with one and the same exception, status 401,
  detail "Could not validate credentials" and header \<^verbatim>\<open>WWW-Authenticate: Bearer\<close>, to a
  malformed token, to a token whose signature or algorithm is not the configured one, to a
  token whose decoded payload has no \<^verbatim>\<open>user_id\<close> (absent or null), and to a token whose
  decoded payload has a \<^verbatim>\<open>user_id\<close> that is the id of no stored user; this for every
  store. A token that decodes and whose \<^verbatim>\<open>user_id\<close> is the id of exactly one stored
  user, who is not active, is answered with the other exception: status 400, detail
  "Inactive user", no headers. The decoded payload is what \<^verbatim>\<open>jwt.decode\<close> returns.
\<close>

theorem get_current_user_rejections:
  "get_current_user int_str cfg db clk (Malformed raw) =
     Inl (HTTPException credentials_exception) \<and>
   (key \<noteq> SECRET_KEY cfg \<or> alg \<noteq> ALGORITHM cfg \<longrightarrow>
      get_current_user int_str cfg db clk (JWS alg key c) =
        Inl (HTTPException credentials_exception)) \<and>
   (jwt_decode int_str tok (SECRET_KEY cfg) [ALGORITHM cfg] (datetime_utcnow clk) = Inr c' \<and>
    (c' ''user_id'' = None \<or> c' ''user_id'' = Some JNull) \<longrightarrow>
      get_current_user int_str cfg db clk tok = Inl (HTTPException credentials_exception)) \<and>
   (jwt_decode int_str tok (SECRET_KEY cfg) [ALGORITHM cfg] (datetime_utcnow clk) = Inr c' \<and>
    (\<forall>u \<in> set (users db). c' ''user_id'' \<noteq> Some (JInt (User_id u))) \<longrightarrow>
      get_current_user int_str cfg db clk tok = Inl (HTTPException credentials_exception)) \<and>
   (jwt_decode int_str tok (SECRET_KEY cfg) [ALGORITHM cfg] (datetime_utcnow clk) = Inr c' \<and>
    c' ''user_id'' = Some (JInt (User_id u)) \<and>
    filter (\<lambda>x. User_id x = User_id u) (users db) = [u] \<and> \<not> is_active u \<longrightarrow>
      get_current_user int_str cfg db clk tok = Inl (HTTPException inactive_user_exception)) \<and>
   credentials_exception =
     \<lparr>status_code = 401, detail = ''Could not validate credentials'',
      headers = Some [(''WWW-Authenticate'', ''Bearer'')]\<rparr> \<and>
   inactive_user_exception =
     \<lparr>status_code = 400, detail = ''Inactive user'', headers = None\<rparr>"
proof -
  let ?reject = "Inl (HTTPException credentials_exception) :: exc + user"
  let ?dec = "jwt_decode int_str tok (SECRET_KEY cfg) [ALGORITHM cfg] (datetime_utcnow clk)"
  have malformed: "get_current_user int_str cfg db clk (Malformed raw) = ?reject"
    by (simp add: get_current_user_decode_failed [where e = JWTError] jwt_decode_def)
  have signature: "get_current_user int_str cfg db clk (JWS alg key c) = ?reject"
    if "key \<noteq> SECRET_KEY cfg \<or> alg \<noteq> ALGORITHM cfg"
    using that
    by (auto simp: get_current_user_decode_failed [where e = JWTError] jwt_decode_def)
  have no_id: "get_current_user int_str cfg db clk tok = ?reject"
    if "?dec = Inr c' \<and> (c' ''user_id'' = None \<or> c' ''user_id'' = Some JNull)"
  proof -
    have "dict_get c' ''user_id'' = JNull"
      using that by (auto simp: dict_get_def)
    then show ?thesis
      using that by (simp add: get_current_user_decoded)
  qed
  have unknown: "get_current_user int_str cfg db clk tok = ?reject"
    if nobody: "?dec = Inr c' \<and>
      (\<forall>u \<in> set (users db). c' ''user_id'' \<noteq> Some (JInt (User_id u)))"
  proof -
    have "user_query db (dict_get c' ''user_id'') = []"
      using nobody
      by (auto simp: user_query_def dict_get_def filter_empty_conv split: option.splits)
    then show ?thesis
      using nobody by (simp add: get_current_user_decoded)
  qed
  have inactive: "get_current_user int_str cfg db clk tok =
      Inl (HTTPException inactive_user_exception)"
    if "?dec = Inr c' \<and> c' ''user_id'' = Some (JInt (User_id u)) \<and>
        filter (\<lambda>x. User_id x = User_id u) (users db) = [u] \<and> \<not> is_active u"
  proof -
    have "dict_get c' ''user_id'' = JInt (User_id u)"
      using that by (simp add: dict_get_def)
    moreover have "user_query db (JInt (User_id u)) = [u]"
      using that by (simp add: user_query_def)
    ultimately show ?thesis
      using that by (simp add: get_current_user_decoded)
  qed
  show ?thesis
    using malformed signature no_id unknown inactive
    by (simp add: credentials_exception_def inactive_user_exception_def)
qed

theorem get_current_user_rejections_witness:
  "get_current_user int_str0 cfg0 db0 clk_utc (Malformed ''not.a.token'') =
     Inl (HTTPException credentials_exception) \<and>
   ''guess'' \<noteq> SECRET_KEY cfg0 \<and>
   get_current_user int_str0 cfg0 db0 clk_utc (JWS ''HS256'' ''guess'' claims_alice) =
     Inl (HTTPException credentials_exception) \<and>
   jwt_decode int_str0 (JWS ''HS256'' ''s3cret'' claims_anonymous) (SECRET_KEY cfg0)
     [ALGORITHM cfg0] (datetime_utcnow clk_utc) = Inr claims_anonymous \<and>
   claims_anonymous ''user_id'' = None \<and>
   get_current_user int_str0 cfg0 db0 clk_utc (JWS ''HS256'' ''s3cret'' claims_anonymous) =
     Inl (HTTPException credentials_exception) \<and>
   jwt_decode int_str0 (JWS ''HS256'' ''s3cret'' claims_nobody) (SECRET_KEY cfg0)
     [ALGORITHM cfg0] (datetime_utcnow clk_utc) = Inr claims_nobody \<and>
   users db0 = [alice, bob] \<and>
   claims_nobody ''user_id'' \<noteq> Some (JInt (User_id alice)) \<and>
   claims_nobody ''user_id'' \<noteq> Some (JInt (User_id bob)) \<and>
   get_current_user int_str0 cfg0 db0 clk_utc (JWS ''HS256'' ''s3cret'' claims_nobody) =
     Inl (HTTPException credentials_exception) \<and>
   jwt_decode int_str0 (JWS ''HS256'' ''s3cret'' claims_bob) (SECRET_KEY cfg0)
     [ALGORITHM cfg0] (datetime_utcnow clk_utc) = Inr claims_bob \<and>
   claims_bob ''user_id'' = Some (JInt (User_id bob)) \<and>
   filter (\<lambda>x. User_id x = User_id bob) (users db0) = [bob] \<and>
   \<not> is_active bob \<and>
   get_current_user int_str0 cfg0 db0 clk_utc (JWS ''HS256'' ''s3cret'' claims_bob) =
     Inl (HTTPException inactive_user_exception) \<and>
   status_code credentials_exception = 401 \<and> status_code inactive_user_exception = 400"
proof -
  have guess: "''guess'' \<noteq> SECRET_KEY cfg0"
    by (simp add: cfg0_def)
  have anonymous: "claims_anonymous ''user_id'' = None"
    by (simp add: claims_anonymous_def)
  have rows: "users db0 = [alice, bob]"
    by (simp add: db0_def)
  have nobody: "claims_nobody ''user_id'' \<noteq> Some (JInt (User_id alice))"
      "claims_nobody ''user_id'' \<noteq> Some (JInt (User_id bob))"
    by (simp_all add: claims_nobody_def alice_def bob_def)
  have bob: "claims_bob ''user_id'' = Some (JInt (User_id bob))"
      "filter (\<lambda>x. User_id x = User_id bob) (users db0) = [bob]" "\<not> is_active bob"
    by (simp_all add: claims_bob_def db0_def alice_def bob_def)
  note dec_bob = decode_claims_bob [of int_str0]
  note dec_anonymous = decode_claims_anonymous [of int_str0]
  note dec_nobody = decode_claims_nobody [of int_str0]
  have malformed: "get_current_user int_str0 cfg0 db0 clk_utc (Malformed ''not.a.token'') =
      Inl (HTTPException credentials_exception)"
    and signature: "get_current_user int_str0 cfg0 db0 clk_utc
        (JWS ''HS256'' ''guess'' claims_alice) = Inl (HTTPException credentials_exception)"
    and inactive: "get_current_user int_str0 cfg0 db0 clk_utc
        (JWS ''HS256'' ''s3cret'' claims_bob) = Inl (HTTPException inactive_user_exception)"
    using get_current_user_rejections [where int_str = int_str0 and cfg = cfg0 and db = db0
        and clk = clk_utc and raw = "''not.a.token''" and key = "''guess''"
        and alg = "''HS256''" and c = claims_alice
        and tok = "JWS ''HS256'' ''s3cret'' claims_bob" and c' = claims_bob and u = bob]
      guess dec_bob bob
    by simp_all
  have codes: "status_code credentials_exception = 401"
      "status_code inactive_user_exception = 400"
    by (simp_all add: credentials_exception_def inactive_user_exception_def)
  have no_id: "get_current_user int_str0 cfg0 db0 clk_utc
      (JWS ''HS256'' ''s3cret'' claims_anonymous) = Inl (HTTPException credentials_exception)"
    using get_current_user_rejections [where int_str = int_str0 and cfg = cfg0 and db = db0
        and clk = clk_utc and raw = "''not.a.token''" and key = "''guess''"
        and alg = "''HS256''" and c = claims_alice
        and tok = "JWS ''HS256'' ''s3cret'' claims_anonymous" and c' = claims_anonymous
        and u = bob]
      dec_anonymous anonymous
    by simp
  have unknown: "get_current_user int_str0 cfg0 db0 clk_utc
      (JWS ''HS256'' ''s3cret'' claims_nobody) = Inl (HTTPException credentials_exception)"
    using get_current_user_rejections [where int_str = int_str0 and cfg = cfg0 and db = db0
        and clk = clk_utc and raw = "''not.a.token''" and key = "''guess''"
        and alg = "''HS256''" and c = claims_alice
        and tok = "JWS ''HS256'' ''s3cret'' claims_nobody" and c' = claims_nobody
        and u = bob]
      dec_nobody nobody rows
    by simp
  show ?thesis
    using guess anonymous rows nobody bob malformed signature inactive codes no_id unknown
      dec_bob dec_anonymous dec_nobody
    by simp
qed

section \<open>The context attached to the returned user\<close>

text \<open>
  Claim C8. Whenever \<^verbatim>\<open>get_current_user\<close> returns a user, the attribute
  \<^verbatim>\<open>current_shop_id\<close> of that user is the token's \<^verbatim>\<open>user_shop_id\<close> claim and the
  attribute \<^verbatim>\<open>last_invoice_id\<close> is the token's \<^verbatim>\<open>last_invoice_id\<close> claim, each
  being null when the token does not carry the claim.
\<close>

theorem get_current_user_context:
  "get_current_user int_str cfg db clk tok = Inr u \<Longrightarrow>
     current_shop_id u =
       Some (case token_claim tok ''user_shop_id'' of None \<Rightarrow> JNull | Some v \<Rightarrow> v) \<and>
     last_invoice_id u =
       Some (case token_claim tok ''last_invoice_id'' of None \<Rightarrow> JNull | Some v \<Rightarrow> v)"
  by (drule get_current_user_returns) (auto simp: token_claim_def dict_get_def)

theorem get_current_user_context_witness:
  "get_current_user int_str0 cfg0 db0 clk_utc (JWS ''HS256'' ''s3cret'' claims_alice) =
     Inr (alice\<lparr>current_shop_id := Some (JInt 7), last_invoice_id := Some JNull\<rparr>) \<and>
   token_claim (JWS ''HS256'' ''s3cret'' claims_alice) ''user_shop_id'' = Some (JInt 7) \<and>
   token_claim (JWS ''HS256'' ''s3cret'' claims_alice) ''last_invoice_id'' = None \<and>
   current_shop_id (alice\<lparr>current_shop_id := Some (JInt 7), last_invoice_id := Some JNull\<rparr>) =
     Some (JInt 7) \<and>
   last_invoice_id (alice\<lparr>current_shop_id := Some (JInt 7), last_invoice_id := Some JNull\<rparr>) =
     Some JNull"
  using get_current_user_context [OF get_current_user_alice] get_current_user_alice
  by (simp add: token_claim_def claims_alice_def)

section \<open>Only stored, active users are returned\<close>

text \<open>
  Claim C9. Whenever \<^verbatim>\<open>get_current_user\<close> returns a user, that user is a row of the
  store, the only row whose id is the token's \<^verbatim>\<open>user_id\<close> claim, with nothing changed
  but the two attached attributes, and the row is active.
\<close>

theorem get_current_user_stored_active:
  "get_current_user int_str cfg db clk tok = Inr u \<Longrightarrow>
     \<exists>r. r \<in> set (users db) \<and>
         token_claim tok ''user_id'' = Some (JInt (User_id r)) \<and>
         filter (\<lambda>x. User_id x = User_id r) (users db) = [r] \<and>
         is_active r \<and>
         u = r\<lparr>current_shop_id := current_shop_id u, last_invoice_id := last_invoice_id u\<rparr> \<and>
         User_id u = User_id r \<and> is_active u"
proof -
  assume "get_current_user int_str cfg db clk tok = Inr u"
  then obtain alg c r where h: "tok = JWS alg (SECRET_KEY cfg) c"
      "user_query db (dict_get c ''user_id'') = [r]" "is_active r"
      "u = r\<lparr>current_shop_id := Some (dict_get c ''user_shop_id''),
                  last_invoice_id := Some (dict_get c ''last_invoice_id'')\<rparr>"
    using get_current_user_returns by blast
  have "r \<in> set (user_query db (dict_get c ''user_id''))"
    using h(2) by simp
  then have r: "r \<in> set (users db)" "JInt (User_id r) = dict_get c ''user_id''"
    by (auto simp: user_query_def)
  then have "token_claim tok ''user_id'' = Some (JInt (User_id r))"
    using h(1) by (auto simp: token_claim_def dict_get_def split: option.splits)
  moreover have "filter (\<lambda>x. User_id x = User_id r) (users db) = [r]"
    using h(2) r(2) [symmetric] by (simp add: user_query_def)
  ultimately show ?thesis
    using r(1) h(3,4) by auto
qed

theorem get_current_user_stored_active_witness:
  "get_current_user int_str0 cfg0 db0 clk_utc (JWS ''HS256'' ''s3cret'' claims_alice) =
     Inr (alice\<lparr>current_shop_id := Some (JInt 7), last_invoice_id := Some JNull\<rparr>) \<and>
   alice \<in> set (users db0) \<and>
   token_claim (JWS ''HS256'' ''s3cret'' claims_alice) ''user_id'' = Some (JInt (User_id alice)) \<and>
   is_active alice \<and>
   (\<exists>r. r \<in> set (users db0) \<and>
      token_claim (JWS ''HS256'' ''s3cret'' claims_alice) ''user_id'' = Some (JInt (User_id r)) \<and>
      is_active r \<and>
      User_id (alice\<lparr>current_shop_id := Some (JInt 7), last_invoice_id := Some JNull\<rparr>) =
        User_id r)"
  using get_current_user_stored_active [OF get_current_user_alice] get_current_user_alice
  by (auto simp: token_claim_def fixture_defs)

section \<open>The superuser claim of the token\<close>

text \<open>
  Claim C10. Two tokens with the same algorithm and signing key whose claims agree everywhere
  except possibly on \<^verbatim>\<open>is_superuser\<close> get the same answer from
  \<^verbatim>\<open>get_current_user\<close> on the same store at the same time, be it a user or an
  exception; and the superuser flag of a returned user is the flag of a stored row with the
  same id, not the claim.
\<close>

theorem is_superuser_claim_noninterference:
  "(\<forall>k. k \<noteq> ''is_superuser'' \<longrightarrow> c k = c' k) \<Longrightarrow>
     get_current_user int_str cfg db clk (JWS alg key c) =
       get_current_user int_str cfg db clk (JWS alg key c') \<and>
     (\<forall>u. get_current_user int_str cfg db clk (JWS alg key c) = Inr u \<longrightarrow>
        (\<exists>r \<in> set (users db). User_id r = User_id u \<and> is_superuser u = is_superuser r))"
proof -
  assume agree: "\<forall>k. k \<noteq> ''is_superuser'' \<longrightarrow> c k = c' k"
  have v: "validate_claims int_str c now = validate_claims int_str c' now" for now
    using agree by (simp add: validate_defs)
  have g: "dict_get c k = dict_get c' k" if "k \<noteq> ''is_superuser''" for k
    using agree that by (simp add: dict_get_def)
  let ?dec = "\<lambda>x. jwt_decode int_str (JWS alg key x) (SECRET_KEY cfg) [ALGORITHM cfg]
      (datetime_utcnow clk)"
  have "(\<exists>e. ?dec c = Inl e \<and> ?dec c' = Inl e) \<or> (?dec c = Inr c \<and> ?dec c' = Inr c')"
    by (auto simp: jwt_decode_def v split: option.splits)
  then have "get_current_user int_str cfg db clk (JWS alg key c) =
      get_current_user int_str cfg db clk (JWS alg key c')"
  proof
    assume "\<exists>e. ?dec c = Inl e \<and> ?dec c' = Inl e"
    then show ?thesis
      by (auto simp: get_current_user_def)
  next
    assume "?dec c = Inr c \<and> ?dec c' = Inr c'"
    then show ?thesis
      by (simp add: get_current_user_decoded g split: sum.splits option.splits)
  qed
  moreover have "\<exists>r \<in> set (users db). User_id r = User_id u \<and> is_superuser u = is_superuser r"
    if ret: "get_current_user int_str cfg db clk (JWS alg key c) = Inr u" for u
  proof -
    obtain a d r where h: "user_query db (dict_get d ''user_id'') = [r]"
      "u = r\<lparr>current_shop_id := Some (dict_get d ''user_shop_id''),
                  last_invoice_id := Some (dict_get d ''last_invoice_id'')\<rparr>"
      using get_current_user_returns [OF ret] by blast
    have "r \<in> set (user_query db (dict_get d ''user_id''))"
      using h(1) by simp
    then have "r \<in> set (users db)" by (simp add: user_query_def)
    then show ?thesis using h(2) by auto
  qed
  ultimately show ?thesis by blast
qed

theorem is_superuser_claim_noninterference_witness:
  "claims_alice ''is_superuser'' = Some (JBool False) \<and>
   (claims_alice(''is_superuser'' \<mapsto> JBool True)) ''is_superuser'' = Some (JBool True) \<and>
   get_current_user int_str0 cfg0 db0 clk_utc (JWS ''HS256'' ''s3cret'' claims_alice) =
     get_current_user int_str0 cfg0 db0 clk_utc
       (JWS ''HS256'' ''s3cret'' (claims_alice(''is_superuser'' \<mapsto> JBool True))) \<and>
   get_current_user int_str0 cfg0 db0 clk_utc
       (JWS ''HS256'' ''s3cret'' (claims_alice(''is_superuser'' \<mapsto> JBool True))) =
     Inr (alice\<lparr>current_shop_id := Some (JInt 7), last_invoice_id := Some JNull\<rparr>) \<and>
   is_superuser (alice\<lparr>current_shop_id := Some (JInt 7), last_invoice_id := Some JNull\<rparr>) =
     False"
proof -
  have agree: "\<forall>k. k \<noteq> ''is_superuser'' \<longrightarrow>
      claims_alice k = (claims_alice(''is_superuser'' \<mapsto> JBool True)) k"
    by simp
  have same: "get_current_user int_str0 cfg0 db0 clk_utc (JWS ''HS256'' ''s3cret'' claims_alice) =
      get_current_user int_str0 cfg0 db0 clk_utc
        (JWS ''HS256'' ''s3cret'' (claims_alice(''is_superuser'' \<mapsto> JBool True)))"
    using is_superuser_claim_noninterference [OF agree, of int_str0 cfg0 db0 clk_utc "''HS256''" "''s3cret''"]
    by blast
  have flags: "claims_alice ''is_superuser'' = Some (JBool False)"
      "is_superuser (alice\<lparr>current_shop_id := Some (JInt 7), last_invoice_id := Some JNull\<rparr>) =
        False"
    by (simp_all add: claims_alice_def alice_def)
  show ?thesis
    using same get_current_user_alice flags by simp
qed

section \<open>The payload of an issued token\<close>

lemma to_encode_exp:
  "to_encode cfg usr data expires_delta clk ''exp'' =
     Some (JInt (datetime_now clk +
       (case expires_delta of
          None \<Rightarrow> 60 * ACCESS_TOKEN_EXPIRE_MINUTES cfg
        | Some delta \<Rightarrow> if delta \<noteq> 0 then delta else 60 * ACCESS_TOKEN_EXPIRE_MINUTES cfg)))"
  by (simp add: to_encode_def Let_def timedelta_truthy_def timedelta_minutes_def
      split: option.splits)

lemma to_encode_identity:
  "to_encode cfg usr data expires_delta clk ''user_id'' = Some (JInt (User_id usr))"
  "to_encode cfg usr data expires_delta clk ''is_superuser'' = Some (JBool (is_superuser usr))"
  "to_encode cfg usr data expires_delta clk ''sub'' = Some (JStr (login usr))"
  by (simp_all add: to_encode_def Let_def split: option.splits)

lemma to_encode_shop_keys:
  "to_encode cfg usr data expires_delta clk ''user_shop_id'' =
     (case data of
        None \<Rightarrow> None
      | Some d \<Rightarrow> if d = Map.empty then None else Some (dict_get d ''user_shop_id''))"
  "to_encode cfg usr data expires_delta clk ''last_invoice_id'' =
     (case data of
        None \<Rightarrow> None
      | Some d \<Rightarrow> if d = Map.empty then None else Some (dict_get d ''last_invoice_id''))"
  by (simp_all add: to_encode_def Let_def dict_truthy_def split: option.splits)

lemma to_encode_unregistered:
  "to_encode cfg usr data expires_delta clk ''iat'' = None"
  "to_encode cfg usr data expires_delta clk ''nbf'' = None"
  "to_encode cfg usr data expires_delta clk ''aud'' = None"
  "to_encode cfg usr data expires_delta clk ''jti'' = None"
  "to_encode cfg usr data expires_delta clk ''at_hash'' = None"
  by (simp_all add: to_encode_def Let_def split: option.splits)

lemma token_claim_create_access_token:
  "token_claim (create_access_token cfg usr data expires_delta clk) k =
     to_encode cfg usr data expires_delta clk k"
  by (simp add: token_claim_def create_access_token_def jwt_encode_def)

text \<open>
  The context that \<^verbatim>\<open>get_user_shop_data\<close> returns always carries both keys, so it is never
  the empty dictionary.
\<close>

lemma get_user_shop_data_keys:
  "get_user_shop_data db usr = Inr d \<Longrightarrow>
     d ''user_shop_id'' \<noteq> None \<and> d ''last_invoice_id'' \<noteq> None"
  by (auto simp: get_user_shop_data_def null_shop_data_def
      split: sum.splits option.splits list.splits)

text \<open>
  The empty dictionary is no context record; \<^verbatim>\<open>if user_shop_data:\<close> treats it like
  \<^verbatim>\<open>None\<close>.
\<close>

lemma create_access_token_empty_dict:
  "token_claim (create_access_token cfg usr (Some Map.empty) expires_delta clk)
     ''user_shop_id'' = None \<and>
   token_claim (create_access_token cfg usr (Some Map.empty) expires_delta clk)
     ''last_invoice_id'' = None"
  by (simp add: token_claim_create_access_token to_encode_shop_keys)

text \<open>
  Claim C4. For every user and every optional context record, a dictionary carrying
  \<^verbatim>\<open>user_shop_id\<close> or \<^verbatim>\<open>last_invoice_id\<close>, the token built by
  \<^verbatim>\<open>create_access_token\<close> carries \<^verbatim>\<open>user_id\<close> = the user's id, \<^verbatim>\<open>is_superuser\<close> =
  the user's superuser flag and \<^verbatim>\<open>sub\<close> = the user's login; the keys \<^verbatim>\<open>user_shop_id\<close>
  and \<^verbatim>\<open>last_invoice_id\<close> are present if and only if a context record was supplied, and
  then they hold what the record holds under them (null for a field it lacks).
\<close>

theorem create_access_token_payload:
  assumes "case user_shop_data of
             None \<Rightarrow> True
           | Some d \<Rightarrow> d ''user_shop_id'' \<noteq> None \<or> d ''last_invoice_id'' \<noteq> None"
  shows
    "token_claim (create_access_token cfg usr user_shop_data expires_delta clk) ''user_id'' =
       Some (JInt (User_id usr)) \<and>
     token_claim (create_access_token cfg usr user_shop_data expires_delta clk) ''is_superuser'' =
       Some (JBool (is_superuser usr)) \<and>
     token_claim (create_access_token cfg usr user_shop_data expires_delta clk) ''sub'' =
       Some (JStr (login usr)) \<and>
     ((token_claim (create_access_token cfg usr user_shop_data expires_delta clk)
         ''user_shop_id'' \<noteq> None) = (user_shop_data \<noteq> None)) \<and>
     ((token_claim (create_access_token cfg usr user_shop_data expires_delta clk)
         ''last_invoice_id'' \<noteq> None) = (user_shop_data \<noteq> None)) \<and>
     (\<forall>d. user_shop_data = Some d \<longrightarrow>
        token_claim (create_access_token cfg usr user_shop_data expires_delta clk)
          ''user_shop_id'' = Some (dict_get d ''user_shop_id'') \<and>
        token_claim (create_access_token cfg usr user_shop_data expires_delta clk)
          ''last_invoice_id'' = Some (dict_get d ''last_invoice_id''))"
proof (cases user_shop_data)
  case None
  then show ?thesis
    by (simp add: token_claim_create_access_token to_encode_identity to_encode_shop_keys)
next
  case (Some d)
  then have "d \<noteq> Map.empty"
    using assms by auto
  then show ?thesis
    using Some
    by (simp add: token_claim_create_access_token to_encode_identity to_encode_shop_keys)
qed

theorem create_access_token_payload_witness:
  "shop_data0 ''user_shop_id'' \<noteq> None \<and>
   token_claim (create_access_token cfg0 alice (Some shop_data0) None clk_utc) ''user_id'' =
     Some (JInt 1) \<and>
   token_claim (create_access_token cfg0 alice (Some shop_data0) None clk_utc) ''is_superuser'' =
     Some (JBool False) \<and>
   token_claim (create_access_token cfg0 alice (Some shop_data0) None clk_utc) ''sub'' =
     Some (JStr ''alice'') \<and>
   token_claim (create_access_token cfg0 alice (Some shop_data0) None clk_utc) ''user_shop_id'' =
     Some (JInt 7) \<and>
   token_claim (create_access_token cfg0 alice (Some shop_data0) None clk_utc)
     ''last_invoice_id'' = Some (JInt 11) \<and>
   token_claim (create_access_token cfg0 bob None None clk_utc) ''user_id'' = Some (JInt 2) \<and>
   token_claim (create_access_token cfg0 bob None None clk_utc) ''is_superuser'' =
     Some (JBool True) \<and>
   token_claim (create_access_token cfg0 bob None None clk_utc) ''user_shop_id'' = None \<and>
   token_claim (create_access_token cfg0 bob None None clk_utc) ''last_invoice_id'' = None"
proof -
  have rec: "shop_data0 ''user_shop_id'' \<noteq> None"
    by (simp add: shop_data0_def)
  have vals: "dict_get shop_data0 ''user_shop_id'' = JInt 7"
      "dict_get shop_data0 ''last_invoice_id'' = JInt 11"
    by (simp_all add: shop_data0_def dict_get_def)
  have ids: "User_id alice = 1" "is_superuser alice = False" "login alice = ''alice''"
      "User_id bob = 2" "is_superuser bob = True"
    by (simp_all add: alice_def bob_def)
  show ?thesis
    using create_access_token_payload [of "Some shop_data0" cfg0 alice None clk_utc]
      create_access_token_payload [of None cfg0 bob None clk_utc] rec vals ids
    by simp
qed

section \<open>The expiry of an issued token\<close>

text \<open>
  Claim C3, amended. Every token built by \<^verbatim>\<open>create_access_token\<close> has an \<^verbatim>\<open>exp\<close>
  claim, an integer. On a host whose local time is UTC its value is the time of issue plus
  the explicit duration when one is given and is not zero; without a duration, and with the
  zero duration, it is the time of issue plus \<^verbatim>\<open>ACCESS_TOKEN_EXPIRE_MINUTES\<close> minutes.
\<close>

theorem create_access_token_exp:
  "(\<exists>e. token_claim (create_access_token cfg usr data expires_delta clk) ''exp'' =
          Some (JInt e)) \<and>
   (utcoffset clk = 0 \<longrightarrow>
      token_claim (create_access_token cfg usr data expires_delta clk) ''exp'' =
        Some (JInt (utc clk +
          (case expires_delta of
             None \<Rightarrow> 60 * ACCESS_TOKEN_EXPIRE_MINUTES cfg
           | Some delta \<Rightarrow>
               if delta \<noteq> 0 then delta else 60 * ACCESS_TOKEN_EXPIRE_MINUTES cfg))))"
  by (simp add: token_claim_create_access_token to_encode_exp datetime_now_def)

theorem create_access_token_exp_witness:
  "utcoffset clk_utc = 0 \<and> utc clk_utc = 20000 \<and> ACCESS_TOKEN_EXPIRE_MINUTES cfg0 = 30 \<and>
   token_claim (create_access_token cfg0 alice None (Some 600) clk_utc) ''exp'' =
     Some (JInt 20600) \<and>
   token_claim (create_access_token cfg0 alice None None clk_utc) ''exp'' =
     Some (JInt 21800) \<and>
   token_claim (create_access_token cfg0 alice None (Some 0) clk_utc) ''exp'' =
     Some (JInt 21800)"
proof -
  have clk: "utcoffset clk_utc = 0" "utc clk_utc = 20000"
    by (simp_all add: clk_utc_def)
  have cfg: "ACCESS_TOKEN_EXPIRE_MINUTES cfg0 = 30"
    by (simp add: cfg0_def)
  show ?thesis
    using create_access_token_exp [of cfg0 alice None "Some 600" clk_utc]
      create_access_token_exp [of cfg0 alice None None clk_utc]
      create_access_token_exp [of cfg0 alice None "Some 0" clk_utc] clk cfg
    by simp
qed

text \<open>
  The claim as first stated, the time of issue plus the duration whenever a duration is
  given, fails on \<^verbatim>\<open>timedelta(0)\<close> already on a host on UTC: \<^verbatim>\<open>if expires_delta:\<close> is
  false for it, and the token gets the default thirty minutes of the settings instead of
  none.
\<close>

theorem create_access_token_exp_counterexample:
  "utcoffset clk_utc = 0 \<and> utc clk_utc = 20000 \<and>
   token_claim (create_access_token cfg0 alice None (Some 0) clk_utc) ''exp'' = Some (JInt 21800) \<and>
   datetime_now clk_utc + 0 = 20000 \<and>
   token_claim (create_access_token cfg0 alice None (Some 0) clk_utc) ''exp'' \<noteq>
     Some (JInt (datetime_now clk_utc + 0))"
  by (simp add: token_claim_create_access_token to_encode_exp datetime_now_def clk_utc_def cfg0_def)

section \<open>Issuing and decoding\<close>

text \<open>
  A token issued with a positive duration \<open>D\<close> on a host whose local time is not behind
  UTC decodes, at every instant before \<open>D\<close> seconds have passed, to a payload with the
  user's id and superuser flag.
\<close>

lemma validate_claims_to_encode:
  assumes "now \<le> datetime_now clk + D" "D \<noteq> 0"
  shows "validate_claims int_str (to_encode cfg usr data (Some D) clk) now = None"
  using assms
  by (simp add: validate_defs to_encode_unregistered to_encode_exp to_encode_identity)

lemma create_access_token_roundtrip:
  assumes "0 < D" "0 \<le> utcoffset clk0" "utc clk1 < utc clk0 + D"
  shows "\<exists>payload.
     jwt_decode int_str (create_access_token cfg usr data (Some D) clk0) (SECRET_KEY cfg)
       [ALGORITHM cfg] (datetime_utcnow clk1) = Inr payload \<and>
     dict_get payload ''user_id'' = JInt (User_id usr) \<and>
     dict_get_default payload ''is_superuser'' (JBool False) = JBool (is_superuser usr)"
proof -
  have "datetime_utcnow clk1 \<le> datetime_now clk0 + D"
    using assms by (simp add: datetime_utcnow_def datetime_now_def)
  then have "validate_claims int_str (to_encode cfg usr data (Some D) clk0)
      (datetime_utcnow clk1) = None"
    using assms(1) by (simp add: validate_claims_to_encode)
  then show ?thesis
    by (simp add: create_access_token_def jwt_encode_def jwt_decode_def dict_get_def
        dict_get_default_def to_encode_identity)
qed

lemma create_access_token_roundtrip_on_utc:
  "jwt_decode int_str (create_access_token cfg0 alice None (Some 1800) clk_utc) (SECRET_KEY cfg0)
       [ALGORITHM cfg0] (datetime_utcnow clk_utc) =
     Inr (to_encode cfg0 alice None (Some 1800) clk_utc)"
  using create_access_token_roundtrip [of 1800 clk_utc clk_utc int_str cfg0 alice None]
  by (auto simp: clk_utc_def create_access_token_def jwt_encode_def jwt_decode_def
      split: if_splits option.splits)

text \<open>
  On the fixtures, with the host on UTC: the context of alice is shop 7 and the latest of her
  three invoices on it, and the token issued with it resolves to alice with that context.
\<close>

lemma issue_and_resolve_on_utc:
  "get_user_shop_data db0 alice = Inr shop_data0 \<and>
   get_current_user int_str cfg0 db0 clk_utc
     (create_access_token cfg0 alice (Some shop_data0) None clk_utc) =
     Inr (alice\<lparr>current_shop_id := Some (JInt 7), last_invoice_id := Some (JInt 11)\<rparr>)"
proof -
  have "get_user_shop_data db0 alice = Inr shop_data0"
    by (simp add: get_user_shop_data_def invoice_query_def invoice_where_def limit_def
        order_by_created_at_desc_def db0_def alice_def bob_def shop7_def inv10_def inv11_def
        inv12_def inv20_def inv21_def shop_data0_def)
  moreover have "get_current_user int_str cfg0 db0 clk_utc
     (create_access_token cfg0 alice (Some shop_data0) None clk_utc) =
     Inr (alice\<lparr>current_shop_id := Some (JInt 7), last_invoice_id := Some (JInt 11)\<rparr>)"
    by (simp add: eval_defs create_access_token_def jwt_encode_def to_encode_def
        dict_truthy_def timedelta_minutes_def shop_data0_def cfg0_def db0_def alice_def
        bob_def clk_utc_def)
  ultimately show ?thesis
    by simp
qed

text \<open>
  Claim C2. The round trip does not hold on every host. \<^verbatim>\<open>create_access_token\<close> takes
  the expiry from \<^verbatim>\<open>datetime.now()\<close>, the local wall-clock reading, and the library
  writes and checks \<^verbatim>\<open>exp\<close> in UTC. On a host five hours behind UTC a token issued for
  thirty minutes carries an \<^verbatim>\<open>exp\<close> four and a half hours in the past: decoded at the
  very instant of issue it raises \<open>ExpiredSignatureError\<close>, and
  \<^verbatim>\<open>get_current_user\<close> answers 401.
\<close>

theorem create_access_token_roundtrip_behind_utc:
  "utcoffset clk_west = - 18000 \<and>
   token_claim (create_access_token cfg0 alice None (Some 1800) clk_west) ''exp'' =
     Some (JInt 3800) \<and>
   datetime_utcnow clk_west = 20000 \<and>
   jwt_decode int_str (create_access_token cfg0 alice None (Some 1800) clk_west) (SECRET_KEY cfg0)
     [ALGORITHM cfg0] (datetime_utcnow clk_west) = Inl ExpiredSignatureError \<and>
   get_current_user int_str cfg0 db0 clk_west
     (create_access_token cfg0 alice None (Some 1800) clk_west) =
     Inl (HTTPException credentials_exception)"
proof -
  have x: "to_encode cfg0 alice None (Some 1800) clk_west ''exp'' = Some (JInt 3800)"
    by (simp add: to_encode_exp datetime_now_def clk_west_def)
  have now: "datetime_utcnow clk_west = 20000"
    by (simp add: datetime_utcnow_def clk_west_def)
  have v: "validate_claims int_str (to_encode cfg0 alice None (Some 1800) clk_west) 20000 =
      Some ExpiredSignatureError"
    by (simp add: validate_defs to_encode_unregistered x)
  have d: "jwt_decode int_str (create_access_token cfg0 alice None (Some 1800) clk_west)
     (SECRET_KEY cfg0) [ALGORITHM cfg0] (datetime_utcnow clk_west) = Inl ExpiredSignatureError"
    by (simp add: create_access_token_def jwt_encode_def jwt_decode_def now v)
  have off: "utcoffset clk_west = - 18000"
    by (simp add: clk_west_def)
  show ?thesis
    using x now d off get_current_user_decode_failed [OF d, of db0]
    by (simp add: token_claim_create_access_token)
qed

section \<open>The shop context\<close>

lemma limit_1_sort_key:
  assumes "xs \<noteq> []"
  shows "\<exists>x. limit 1 (sort_key f xs) = [x] \<and> x \<in> set xs \<and> (\<forall>y \<in> set xs. f x \<le> f y)"
proof -
  have "length (sort_key f xs) = length xs"
    by simp
  then obtain x rest where ys: "sort_key f xs = x # rest"
    using assms by (cases "sort_key f xs") auto
  have "sorted (map f (sort_key f xs))"
    by (rule sorted_sort_key)
  then have "\<forall>y \<in> set rest. f x \<le> f y"
    by (simp add: ys)
  moreover have "set (x # rest) = set xs"
    using ys set_sort [of f xs] by simp
  ultimately have "x \<in> set xs" "\<forall>y \<in> set xs. f x \<le> f y"
    by auto
  then show ?thesis
    by (simp add: limit_def ys)
qed

text \<open>The rows the query selects from: those of the table with both columns as asked.\<close>

lemma set_invoice_where:
  "set (invoice_where db uid sid) =
     {i \<in> set (invoices db). Invoice_user_id i = uid \<and> Invoice_shop_id i = sid}"
  by (auto simp: invoice_where_def)

lemma invoice_query_none:
  assumes "\<forall>i \<in> set (invoices db). \<not> (Invoice_user_id i = uid \<and> Invoice_shop_id i = sid)"
  shows "invoice_query db uid sid = []"
proof -
  have "invoice_where db uid sid = []"
    using assms by (auto simp: invoice_where_def filter_empty_conv)
  then show ?thesis
    by (simp add: invoice_query_def order_by_created_at_desc_def limit_def)
qed

lemma invoice_query_latest:
  assumes "\<exists>i \<in> set (invoices db). Invoice_user_id i = uid \<and> Invoice_shop_id i = sid"
  shows "\<exists>i. invoice_query db uid sid = [i] \<and> i \<in> set (invoices db) \<and>
           Invoice_user_id i = uid \<and> Invoice_shop_id i = sid \<and>
           (\<forall>j \<in> set (invoices db).
              Invoice_user_id j = uid \<and> Invoice_shop_id j = sid \<longrightarrow>
              created_at j \<le> created_at i)"
proof -
  have "invoice_where db uid sid \<noteq> []"
    using assms set_invoice_where [of db uid sid] by auto
  then obtain i where i: "limit 1 (sort_key (\<lambda>i. - created_at i) (invoice_where db uid sid)) = [i]"
      "i \<in> set (invoice_where db uid sid)"
      "\<forall>j \<in> set (invoice_where db uid sid). - created_at i \<le> - created_at j"
    using limit_1_sort_key [of "invoice_where db uid sid" "\<lambda>i. - created_at i"] by blast
  show ?thesis
    using i by (auto simp: invoice_query_def order_by_created_at_desc_def set_invoice_where)
qed

text \<open>The id is the primary key of the users table: a query by id finds no row or one.\<close>

lemma primary_key_rows:
  "distinct (map User_id rows) \<Longrightarrow>
     filter (\<lambda>u. User_id u = k) rows = [] \<or> (\<exists>row. filter (\<lambda>u. User_id u = k) rows = [row])"
proof (induction rows)
  case Nil
  then show ?case by simp
next
  case (Cons r rows)
  then have "k \<notin> User_id ` set rows" if "User_id r = k"
    using that by auto
  then have "filter (\<lambda>u. User_id u = k) rows = []" if "User_id r = k"
    using that by (force simp: filter_empty_conv image_iff)
  then show ?case
    using Cons by auto
qed

text \<open>
  Claim C5. When the query by the user's id finds no row, or finds the row and its
  \<^verbatim>\<open>shops\<close> collection is empty, \<^verbatim>\<open>get_user_shop_data\<close> returns
  \<^verbatim>\<open>{user_shop_id: None, last_invoice_id: None}\<close>. When the row has shops, it returns
  the id of the first shop of the collection and, as \<^verbatim>\<open>last_invoice_id\<close>: null if the
  invoices table has no invoice of that user on that shop; otherwise the id of an invoice of
  the table, of that user and on that shop, whose \<^verbatim>\<open>created_at\<close> no invoice of that user
  on that shop exceeds.
\<close>

theorem get_user_shop_data_context:
  "(filter (\<lambda>u. User_id u = User_id usr) (users db) = [] \<longrightarrow>
      get_user_shop_data db usr =
        Inr [''user_shop_id'' \<mapsto> JNull, ''last_invoice_id'' \<mapsto> JNull]) \<and>
   (filter (\<lambda>u. User_id u = User_id usr) (users db) = [row] \<and> shops row = [] \<longrightarrow>
      get_user_shop_data db usr =
        Inr [''user_shop_id'' \<mapsto> JNull, ''last_invoice_id'' \<mapsto> JNull]) \<and>
   (filter (\<lambda>u. User_id u = User_id usr) (users db) = [row] \<and> shops row = s # rest \<longrightarrow>
      (\<exists>v. get_user_shop_data db usr =
             Inr [''user_shop_id'' \<mapsto> JInt (Shop_id s), ''last_invoice_id'' \<mapsto> v] \<and>
           (if \<forall>i \<in> set (invoices db).
                 \<not> (Invoice_user_id i = User_id usr \<and> Invoice_shop_id i = Shop_id s)
            then v = JNull
            else \<exists>i \<in> set (invoices db).
                   Invoice_user_id i = User_id usr \<and> Invoice_shop_id i = Shop_id s \<and>
                   v = JInt (Invoice_id i) \<and>
                   (\<forall>j \<in> set (invoices db).
                      Invoice_user_id j = User_id usr \<and> Invoice_shop_id j = Shop_id s \<longrightarrow>
                      created_at j \<le> created_at i))))"
proof (intro conjI impI)
  assume "filter (\<lambda>u. User_id u = User_id usr) (users db) = []"
  then show "get_user_shop_data db usr =
        Inr [''user_shop_id'' \<mapsto> JNull, ''last_invoice_id'' \<mapsto> JNull]"
    by (simp add: get_user_shop_data_def null_shop_data_def)
next
  assume "filter (\<lambda>u. User_id u = User_id usr) (users db) = [row] \<and> shops row = []"
  then show "get_user_shop_data db usr =
        Inr [''user_shop_id'' \<mapsto> JNull, ''last_invoice_id'' \<mapsto> JNull]"
    by (simp add: get_user_shop_data_def null_shop_data_def)
next
  assume a: "filter (\<lambda>u. User_id u = User_id usr) (users db) = [row] \<and> shops row = s # rest"
  let ?mine = "\<lambda>i. Invoice_user_id i = User_id usr \<and> Invoice_shop_id i = Shop_id s"
  show "\<exists>v. get_user_shop_data db usr =
             Inr [''user_shop_id'' \<mapsto> JInt (Shop_id s), ''last_invoice_id'' \<mapsto> v] \<and>
           (if \<forall>i \<in> set (invoices db). \<not> ?mine i
            then v = JNull
            else \<exists>i \<in> set (invoices db).
                   Invoice_user_id i = User_id usr \<and> Invoice_shop_id i = Shop_id s \<and>
                   v = JInt (Invoice_id i) \<and>
                   (\<forall>j \<in> set (invoices db). ?mine j \<longrightarrow> created_at j \<le> created_at i))"
  proof (cases "\<forall>i \<in> set (invoices db). \<not> ?mine i")
    case True
    then have "invoice_query db (User_id usr) (Shop_id s) = []"
      by (rule invoice_query_none)
    then show ?thesis
      using a True by (simp add: get_user_shop_data_def)
  next
    case False
    then have "\<exists>i \<in> set (invoices db). ?mine i"
      by blast
    then obtain i where i: "invoice_query db (User_id usr) (Shop_id s) = [i]"
        "i \<in> set (invoices db)" "?mine i"
        "\<forall>j \<in> set (invoices db). ?mine j \<longrightarrow> created_at j \<le> created_at i"
      using invoice_query_latest [of db "User_id usr" "Shop_id s"] by blast
    have "get_user_shop_data db usr =
        Inr [''user_shop_id'' \<mapsto> JInt (Shop_id s), ''last_invoice_id'' \<mapsto> JInt (Invoice_id i)]"
      using a i(1) by (simp add: get_user_shop_data_def)
    then show ?thesis
      using False i(2,3,4) by auto
  qed
qed

theorem get_user_shop_data_context_witness:
  "filter (\<lambda>u. User_id u = User_id alice) (users db0) = [alice] \<and>
   shops alice = [shop7] \<and>
   invoices db0 = [inv10, inv20, inv11, inv21, inv12] \<and>
   Invoice_user_id inv20 \<noteq> User_id alice \<and> created_at inv11 < created_at inv20 \<and>
   Invoice_shop_id inv21 \<noteq> Shop_id shop7 \<and> created_at inv11 < created_at inv21 \<and>
   created_at inv10 < created_at inv11 \<and> created_at inv12 < created_at inv11 \<and>
   get_user_shop_data db0 alice =
     Inr [''user_shop_id'' \<mapsto> JInt 7, ''last_invoice_id'' \<mapsto> JInt 11] \<and>
   filter (\<lambda>u. User_id u = User_id bob) (users db0) = [bob] \<and>
   shops bob = [] \<and>
   get_user_shop_data db0 bob =
     Inr [''user_shop_id'' \<mapsto> JNull, ''last_invoice_id'' \<mapsto> JNull] \<and>
   filter (\<lambda>u. User_id u = User_id (alice\<lparr>User_id := 99\<rparr>)) (users db0) = [] \<and>
   get_user_shop_data db0 (alice\<lparr>User_id := 99\<rparr>) =
     Inr [''user_shop_id'' \<mapsto> JNull, ''last_invoice_id'' \<mapsto> JNull]"
proof -
  have rows: "filter (\<lambda>u. User_id u = User_id alice) (users db0) = [alice]"
      "filter (\<lambda>u. User_id u = User_id bob) (users db0) = [bob]"
      "filter (\<lambda>u. User_id u = User_id (alice\<lparr>User_id := 99\<rparr>)) (users db0) = []"
    by (simp_all add: db0_def alice_def bob_def)
  have shops: "shops alice = [shop7]" "shops bob = []"
    by (simp_all add: alice_def bob_def)
  have table: "invoices db0 = [inv10, inv20, inv11, inv21, inv12]"
    by (simp add: db0_def)
  have mine: "Invoice_user_id inv10 = User_id alice \<and> Invoice_shop_id inv10 = Shop_id shop7"
      "Invoice_user_id inv11 = User_id alice \<and> Invoice_shop_id inv11 = Shop_id shop7"
      "Invoice_user_id inv12 = User_id alice \<and> Invoice_shop_id inv12 = Shop_id shop7"
    by (simp_all add: inv10_def inv11_def inv12_def alice_def shop7_def)
  have foreign: "Invoice_user_id inv20 \<noteq> User_id alice" "Invoice_shop_id inv21 \<noteq> Shop_id shop7"
    by (simp_all add: inv20_def inv21_def alice_def shop7_def)
  have times: "created_at inv10 < created_at inv11" "created_at inv12 < created_at inv11"
      "created_at inv11 < created_at inv20" "created_at inv11 < created_at inv21"
    by (simp_all add: inv10_def inv11_def inv12_def inv20_def inv21_def)
  have ids: "Shop_id shop7 = 7" "Invoice_id inv11 = 11"
    by (simp_all add: shop7_def inv11_def)
  from get_user_shop_data_context [of alice db0 alice shop7 "[]"] rows(1) shops(1)
  obtain v where v: "get_user_shop_data db0 alice =
        Inr [''user_shop_id'' \<mapsto> JInt (Shop_id shop7), ''last_invoice_id'' \<mapsto> v]"
      "if \<forall>i \<in> set (invoices db0).
            \<not> (Invoice_user_id i = User_id alice \<and> Invoice_shop_id i = Shop_id shop7)
       then v = JNull
       else \<exists>i \<in> set (invoices db0).
              Invoice_user_id i = User_id alice \<and> Invoice_shop_id i = Shop_id shop7 \<and>
              v = JInt (Invoice_id i) \<and>
              (\<forall>j \<in> set (invoices db0).
                 Invoice_user_id j = User_id alice \<and> Invoice_shop_id j = Shop_id shop7 \<longrightarrow>
                 created_at j \<le> created_at i)"
    by blast
  have "v = JInt (Invoice_id inv11)"
    using v(2) table mine foreign times by auto
  then have a: "get_user_shop_data db0 alice =
      Inr [''user_shop_id'' \<mapsto> JInt 7, ''last_invoice_id'' \<mapsto> JInt 11]"
    using v(1) ids by simp
  have b: "get_user_shop_data db0 bob =
      Inr [''user_shop_id'' \<mapsto> JNull, ''last_invoice_id'' \<mapsto> JNull]"
    using get_user_shop_data_context [of bob db0 bob shop7 "[]"] rows(2) shops(2) by simp
  have c: "get_user_shop_data db0 (alice\<lparr>User_id := 99\<rparr>) =
      Inr [''user_shop_id'' \<mapsto> JNull, ''last_invoice_id'' \<mapsto> JNull]"
    using get_user_shop_data_context [of "alice\<lparr>User_id := 99\<rparr>" db0 alice shop7 "[]"] rows(3)
    by simp
  show ?thesis
    using rows shops table foreign times a b c by simp
qed

end
